theory Spec2Isabelle
  imports Main
begin

section \<open>The host platform\<close>

text \<open>
  The script \<^verbatim>\<open>assets/referral-tracker.js\<close> runs in a browser. Everything it does goes
  through platform primitives: \<^verbatim>\<open>localStorage\<close>, \<^verbatim>\<open>JSON\<close>, \<^verbatim>\<open>URLSearchParams\<close>,
  \<^verbatim>\<open>window.location\<close>, \<^verbatim>\<open>Date\<close> and \<^verbatim>\<open>fetch\<close>. The primitives are modelled by what
  they return or throw; the functions of the class \<^verbatim>\<open>ReferralTracker\<close> are translated
  statement by statement on top of them. Calls of \<^verbatim>\<open>console.log\<close> and
  \<^verbatim>\<open>console.error\<close> neither throw nor change any state that the script reads and are
  left out.
\<close>

subsection \<open>Values\<close>

text \<open>
  What \<^verbatim>\<open>JSON.parse\<close> can return. A JavaScript value that may also be
  \<^verbatim>\<open>undefined\<close> is a \<open>json option\<close>, with \<open>None\<close> for \<^verbatim>\<open>undefined\<close>. The properties
  of an object are kept in insertion order; a property is looked up with \<open>map_of\<close>
  (should a name occur twice in the list, its first occurrence is the property).
  Numbers are integers here: the script never computes with a number.
\<close>

datatype json =
    JNull
  | JBool bool
  | JNum int
  | JStr string
  | JArr "json list"
  | JObj "(string \<times> json) list"

text \<open>
  A text, as stored in \<^verbatim>\<open>localStorage\<close> or carried by an HTTP body, seen through
  \<^verbatim>\<open>JSON.parse\<close>: either the parser rejects it (\<open>Unparsable\<close>, with the text itself),
  or it is the serialisation of a value (\<open>Parsable\<close>).
\<close>

datatype content = Unparsable string | Parsable json

datatype error = SecurityError | QuotaExceededError | SyntaxError | TypeError | NetworkError

datatype request = GET string | POST string content

record response =
  ok :: bool
  body :: content

text \<open>
  The state the script acts on: the browser's \<^verbatim>\<open>localStorage\<close> and the trace of the
  requests issued through \<^verbatim>\<open>fetch\<close>.
\<close>

record world =
  localStorage :: "string \<rightharpoonup> content"
  requests :: "request list"

text \<open>
  What the platform answers during one call of a method: the query string of the page
  as \<^verbatim>\<open>URLSearchParams\<close> parses it (name and value pairs, in order), the path, the
  clock reading \<^verbatim>\<open>new Date().toISOString()\<close>, whether each \<^verbatim>\<open>localStorage\<close> method
  throws (storage disabled, quota exceeded), and how the two endpoints of the cart
  service respond (\<open>Inl\<close> is a rejected promise).
\<close>

record host =
  search :: "(string \<times> string) list"
  pathname :: string
  now :: string
  getItem_throws :: bool
  setItem_throws :: bool
  removeItem_throws :: bool
  cart_js :: "error + response"
  cart_update_js :: "error + response"

subsection \<open>Computations that may throw\<close>

type_synonym 'a js = "world \<Rightarrow> (error + 'a) \<times> world"

definition js_return :: "'a \<Rightarrow> 'a js" where
  "js_return x = (\<lambda>w. (Inr x, w))"

definition js_throw :: "error \<Rightarrow> 'a js" where
  "js_throw e = (\<lambda>w. (Inl e, w))"

definition js_bind :: "'a js \<Rightarrow> ('a \<Rightarrow> 'b js) \<Rightarrow> 'b js" where
  "js_bind m f = (\<lambda>w. case m w of (Inl e, w') \<Rightarrow> (Inl e, w') | (Inr x, w') \<Rightarrow> f x w')"

text \<open>\<^verbatim>\<open>try { m } catch (error) { handler }\<close>: the handler runs in the state the body left.\<close>

definition js_try :: "'a js \<Rightarrow> (error \<Rightarrow> 'a js) \<Rightarrow> 'a js" where
  "js_try m handler = (\<lambda>w. case m w of (Inl e, w') \<Rightarrow> handler e w' | (Inr x, w') \<Rightarrow> (Inr x, w'))"

subsection \<open>Operators\<close>

text \<open>Truthiness, the operator \<^verbatim>\<open>||\<close> and strict equality \<^verbatim>\<open>===\<close>.\<close>

fun truthy :: "json option \<Rightarrow> bool" where
  "truthy None = False"
| "truthy (Some JNull) = False"
| "truthy (Some (JBool b)) = b"
| "truthy (Some (JNum n)) = (n \<noteq> 0)"
| "truthy (Some (JStr s)) = (s \<noteq> [])"
| "truthy (Some (JArr xs)) = True"
| "truthy (Some (JObj kvs)) = True"

definition js_or :: "json option \<Rightarrow> json option \<Rightarrow> json option" where
  "js_or a b = (if truthy a then a else b)"

text \<open>
  Both operands of the script's \<^verbatim>\<open>===\<close> come from different calls of \<^verbatim>\<open>JSON.parse\<close>, so
  two arrays or two objects are never the same reference.
\<close>

fun strict_eq :: "json option \<Rightarrow> json option \<Rightarrow> bool" where
  "strict_eq None b = (b = None)"
| "strict_eq (Some JNull) b = (b = Some JNull)"
| "strict_eq (Some (JBool x)) b = (b = Some (JBool x))"
| "strict_eq (Some (JNum n)) b = (b = Some (JNum n))"
| "strict_eq (Some (JStr s)) b = (b = Some (JStr s))"
| "strict_eq (Some (JArr xs)) b = False"
| "strict_eq (Some (JObj kvs)) b = False"

text \<open>
  Property access \<^verbatim>\<open>v.k\<close> and \<^verbatim>\<open>v[k]\<close>: a \<^verbatim>\<open>TypeError\<close> on \<^verbatim>\<open>null\<close> and
  \<^verbatim>\<open>undefined\<close>, the property of an object, and \<^verbatim>\<open>undefined\<close> on every other value
  (none of the names the script reads is a built-in property of a string, a number, a
  boolean or an array). \<open>opt_member\<close> is the optional chaining \<^verbatim>\<open>v?.k\<close>.
\<close>

fun member :: "json option \<Rightarrow> string \<Rightarrow> (json option) js" where
  "member None k = js_throw TypeError"
| "member (Some JNull) k = js_throw TypeError"
| "member (Some (JObj kvs)) k = js_return (map_of kvs k)"
| "member (Some v) k = js_return None"

fun opt_member :: "json option \<Rightarrow> string \<Rightarrow> json option" where
  "opt_member None k = None"
| "opt_member (Some JNull) k = None"
| "opt_member (Some (JObj kvs)) k = map_of kvs k"
| "opt_member (Some v) k = None"

subsection \<open>Primitives\<close>

text \<open>\<^verbatim>\<open>URLSearchParams.get\<close>: the first value of the name, or \<^verbatim>\<open>null\<close>.\<close>

definition URLSearchParams_get :: "(string \<times> string) list \<Rightarrow> string \<Rightarrow> json option" where
  "URLSearchParams_get params name =
     (case map_of params name of None \<Rightarrow> Some JNull | Some v \<Rightarrow> Some (JStr v))"

definition localStorage_getItem :: "host \<Rightarrow> string \<Rightarrow> (content option) js" where
  "localStorage_getItem h k =
     (\<lambda>w. if getItem_throws h then (Inl SecurityError, w) else (Inr (localStorage w k), w))"

definition localStorage_setItem :: "host \<Rightarrow> string \<Rightarrow> content \<Rightarrow> unit js" where
  "localStorage_setItem h k v =
     (\<lambda>w. if setItem_throws h then (Inl QuotaExceededError, w)
          else (Inr (), w\<lparr>localStorage := (localStorage w)(k \<mapsto> v)\<rparr>))"

definition localStorage_removeItem :: "host \<Rightarrow> string \<Rightarrow> unit js" where
  "localStorage_removeItem h k =
     (\<lambda>w. if removeItem_throws h then (Inl SecurityError, w)
          else (Inr (), w\<lparr>localStorage := (localStorage w)(k := None)\<rparr>))"

text \<open>A string is falsy exactly when it is empty; no serialisation of a value is empty.\<close>

fun text_truthy :: "content \<Rightarrow> bool" where
  "text_truthy (Unparsable s) = (s \<noteq> [])"
| "text_truthy (Parsable v) = True"

fun JSON_parse :: "content \<Rightarrow> json js" where
  "JSON_parse (Unparsable s) = js_throw SyntaxError"
| "JSON_parse (Parsable v) = js_return v"

text \<open>
  \<^verbatim>\<open>JSON.stringify\<close> of an object literal, given as its properties in order: a property
  whose value is \<^verbatim>\<open>undefined\<close> is dropped.
\<close>

definition defined_props :: "(string \<times> json option) list \<Rightarrow> (string \<times> json) list" where
  "defined_props props = List.map_filter (\<lambda>(k, v). map_option (Pair k) v) props"

definition JSON_stringify :: "(string \<times> json option) list \<Rightarrow> content" where
  "JSON_stringify props = Parsable (JObj (defined_props props))"

text \<open>
  \<^verbatim>\<open>await fetch(...)\<close>: the request is issued, then the promise settles as the host
  says. The script fetches \<^verbatim>\<open>/cart.js\<close> with GET and \<^verbatim>\<open>/cart/update.js\<close> with POST.
  \<^verbatim>\<open>await response.json()\<close> parses the body.
\<close>

definition fetch :: "host \<Rightarrow> request \<Rightarrow> response js" where
  "fetch h req =
     (\<lambda>w. (case req of GET url \<Rightarrow> cart_js h | POST url payload \<Rightarrow> cart_update_js h,
           w\<lparr>requests := requests w @ [req]\<rparr>))"

definition response_json :: "response \<Rightarrow> json js" where
  "response_json r = JSON_parse (body r)"

section \<open>The referral tracker\<close>

definition REFERRAL_PARAM :: string where
  "REFERRAL_PARAM = ''ref''"

definition ORDER_ID_PARAM :: string where
  "ORDER_ID_PARAM = ''order_id''"

definition STORAGE_KEY :: string where
  "STORAGE_KEY = ''shared_sweeps_referral_tracker''"

definition CART_ATTRIBUTE_KEY :: string where
  "CART_ATTRIBUTE_KEY = ''Shared_Sweeps_Referred_By''"

definition ORDER_ID_ATTRIBUTE_KEY :: string where
  "ORDER_ID_ATTRIBUTE_KEY = ''Shared_Sweeps_Order_ID''"

definition LANDING_PAGE_ATTRIBUTE_KEY :: string where
  "LANDING_PAGE_ATTRIBUTE_KEY = ''Shared_Sweeps_Referral_Landing_Page''"

definition CAPTURED_AT_ATTRIBUTE_KEY :: string where
  "CAPTURED_AT_ATTRIBUTE_KEY = ''Shared_Sweeps_Referral_Captured_At''"

text \<open>
  \<^verbatim>\<open>getStoredReferral\<close> (\<open>readRecord\<close> in the specification):
  \<^verbatim>\<open>stored ? JSON.parse(stored) : null\<close> inside \<^verbatim>\<open>try\<close>, \<^verbatim>\<open>null\<close> from the handler.
\<close>

definition getStoredReferral :: "host \<Rightarrow> json js" where
  "getStoredReferral h =
     js_try
       (js_bind (localStorage_getItem h STORAGE_KEY) (\<lambda>stored.
          case stored of
            None \<Rightarrow> js_return JNull
          | Some t \<Rightarrow> if text_truthy t then JSON_parse t else js_return JNull))
       (\<lambda>e. js_return JNull)"

text \<open>
  \<^verbatim>\<open>storeReferral(referral, orderId)\<close>. The operands of \<^verbatim>\<open>||\<close> that the script
  evaluates lazily are reads of properties of \<open>existingData\<close>, which is never
  \<^verbatim>\<open>null\<close>; reading them first gives the same result.
\<close>

definition storeReferral :: "host \<Rightarrow> json option \<Rightarrow> json option \<Rightarrow> unit js" where
  "storeReferral h referral orderId =
     js_try
       (js_bind (getStoredReferral h) (\<lambda>stored.
        let existingData = js_or (Some stored) (Some (JObj [])) in
        js_bind (member existingData ''code'') (\<lambda>existingCode.
        js_bind (member existingData ''orderId'') (\<lambda>existingOrderId.
        let data =
          [(''code'', js_or (js_or referral existingCode) (Some JNull)),
           (''orderId'', js_or (js_or orderId existingOrderId) (Some JNull)),
           (''capturedAt'', Some (JStr (now h))),
           (''landingPage'', Some (JStr (pathname h)))]
        in localStorage_setItem h STORAGE_KEY (JSON_stringify data)))))
       (\<lambda>e. js_return ())"

text \<open>\<^verbatim>\<open>captureReferralFromURL\<close> (\<open>capture\<close> in the specification).\<close>

definition captureReferralFromURL :: "host \<Rightarrow> unit js" where
  "captureReferralFromURL h =
     (let referral = URLSearchParams_get (search h) REFERRAL_PARAM;
          orderId = URLSearchParams_get (search h) ORDER_ID_PARAM
      in if truthy referral \<or> truthy orderId then storeReferral h referral orderId
         else js_return ())"

text \<open>
  The two comparisons of \<^verbatim>\<open>syncReferralToCart\<close>,
  \<^verbatim>\<open>!field || (cart.attributes && cart.attributes[key] === field)\<close>, as the truth value
  the following \<^verbatim>\<open>if\<close> reads. \<^verbatim>\<open>cart.attributes\<close> is read only when the field is set.
\<close>

definition attribute_matches :: "json option \<Rightarrow> json \<Rightarrow> string \<Rightarrow> bool js" where
  "attribute_matches field cart key =
     (if \<not> truthy field then js_return True
      else js_bind (member (Some cart) ''attributes'') (\<lambda>attributes.
           if \<not> truthy attributes then js_return False
           else js_bind (member attributes key) (\<lambda>v. js_return (strict_eq v field))))"

text \<open>
  \<^verbatim>\<open>syncReferralToCart\<close> (\<open>reconcile\<close> in the specification). The properties of
  \<open>referralData\<close> are read once it is known to be truthy, where reading cannot throw.
  The two metadata keys are string literals in the script and carry a name here. The
  script reads \<^verbatim>\<open>response.ok\<close> only to decide what to log.
\<close>

definition syncReferralToCart :: "host \<Rightarrow> unit js" where
  "syncReferralToCart h =
     js_bind (getStoredReferral h) (\<lambda>referralData.
     if \<not> truthy (Some referralData) then js_return ()
     else
       js_bind (member (Some referralData) ''code'') (\<lambda>code.
       js_bind (member (Some referralData) ''orderId'') (\<lambda>orderId.
       if \<not> truthy code \<and> \<not> truthy orderId then js_return ()
       else
         js_try
           (js_bind (fetch h (GET ''/cart.js'')) (\<lambda>cartResponse.
            js_bind (response_json cartResponse) (\<lambda>cart.
            js_bind (attribute_matches code cart CART_ATTRIBUTE_KEY) (\<lambda>referralMatches.
            js_bind (attribute_matches orderId cart ORDER_ID_ATTRIBUTE_KEY) (\<lambda>orderIdMatches.
            if referralMatches \<and> orderIdMatches then js_return ()
            else
              js_bind (member (Some referralData) ''landingPage'') (\<lambda>landingPage.
              js_bind (member (Some referralData) ''capturedAt'') (\<lambda>capturedAt.
              let attributes =
                    [(LANDING_PAGE_ATTRIBUTE_KEY, landingPage),
                     (CAPTURED_AT_ATTRIBUTE_KEY, capturedAt)]
                    @ (if truthy code then [(CART_ATTRIBUTE_KEY, code)] else [])
                    @ (if truthy orderId then [(ORDER_ID_ATTRIBUTE_KEY, orderId)] else [])
              in js_bind
                   (fetch h (POST ''/cart/update.js''
                      (JSON_stringify [(''attributes'', Some (JObj (defined_props attributes)))])))
                   (\<lambda>response. js_return ()))))))))
           (\<lambda>e. js_return ()))))"

text \<open>\<^verbatim>\<open>clearReferral\<close> (\<open>clear\<close> in the specification).\<close>

definition clearReferral :: "host \<Rightarrow> unit js" where
  "clearReferral h =
     js_try (localStorage_removeItem h STORAGE_KEY) (\<lambda>e. js_return ())"

text \<open>\<^verbatim>\<open>getReferralCode\<close> (\<open>currentCode\<close> in the specification): \<^verbatim>\<open>data?.code || null\<close>.\<close>

definition getReferralCode :: "host \<Rightarrow> (json option) js" where
  "getReferralCode h =
     js_bind (getStoredReferral h) (\<lambda>data.
       js_return (js_or (opt_member (Some data) ''code'') (Some JNull)))"

text \<open>
  The earlier version of \<^verbatim>\<open>syncReferralToCart\<close>, which knows the referral code only.
  Its \<^verbatim>\<open>getStoredReferral\<close> is the same function.
\<close>

definition syncReferralToCart_legacy :: "host \<Rightarrow> unit js" where
  "syncReferralToCart_legacy h =
     js_bind (getStoredReferral h) (\<lambda>referralData.
     if \<not> truthy (Some referralData) then js_return ()
     else
       js_bind (member (Some referralData) ''code'') (\<lambda>code.
       if \<not> truthy code then js_return ()
       else
         js_try
           (js_bind (fetch h (GET ''/cart.js'')) (\<lambda>cartResponse.
            js_bind (response_json cartResponse) (\<lambda>cart.
            js_bind (member (Some cart) ''attributes'') (\<lambda>attributes.
            js_bind (if \<not> truthy attributes then js_return False
                     else js_bind (member attributes CART_ATTRIBUTE_KEY) (\<lambda>v.
                          js_return (strict_eq v code))) (\<lambda>alreadySet.
            if alreadySet then js_return ()
            else
              js_bind (member (Some referralData) ''landingPage'') (\<lambda>landingPage.
              js_bind (member (Some referralData) ''capturedAt'') (\<lambda>capturedAt.
              let attributes =
                    [(CART_ATTRIBUTE_KEY, code),
                     (LANDING_PAGE_ATTRIBUTE_KEY, landingPage),
                     (CAPTURED_AT_ATTRIBUTE_KEY, capturedAt)]
              in js_bind
                   (fetch h (POST ''/cart/update.js''
                      (JSON_stringify [(''attributes'', Some (JObj (defined_props attributes)))])))
                   (\<lambda>response. js_return ()))))))))
           (\<lambda>e. js_return ())))"

section \<open>Observations and runs\<close>

text \<open>The value of \<^verbatim>\<open>a || null\<close>: never \<^verbatim>\<open>undefined\<close>.\<close>

fun or_null :: "json option \<Rightarrow> json" where
  "or_null None = JNull"
| "or_null (Some v) = (if truthy (Some v) then v else JNull)"

text \<open>The value \<open>getStoredReferral\<close> returns in a state.\<close>

definition stored_value :: "host \<Rightarrow> world \<Rightarrow> json" where
  "stored_value h w =
     (if getItem_throws h then JNull
      else case localStorage w STORAGE_KEY of Some (Parsable v) \<Rightarrow> v | _ \<Rightarrow> JNull)"

text \<open>A computation that leaves \<^verbatim>\<open>localStorage\<close> as it found it.\<close>

definition keeps_storage :: "'a js \<Rightarrow> bool" where
  "keeps_storage m = (\<forall>w. localStorage (snd (m w)) = localStorage w)"

text \<open>The value of \<^verbatim>\<open>this.getStoredReferral() || {}\<close> in a state.\<close>

definition existingData :: "host \<Rightarrow> world \<Rightarrow> json option" where
  "existingData h w = js_or (Some (stored_value h w)) (Some (JObj []))"

text \<open>A field of the persisted record, \<open>None\<close> when there is no record or no such field.\<close>

definition persisted_field :: "world \<Rightarrow> string \<Rightarrow> json option" where
  "persisted_field w k =
     (case localStorage w STORAGE_KEY of
        Some (Parsable v) \<Rightarrow> opt_member (Some v) k
      | _ \<Rightarrow> None)"

text \<open>The payloads of the cart updates issued so far.\<close>

fun payloads :: "request list \<Rightarrow> content list" where
  "payloads [] = []"
| "payloads (GET url # rs) = payloads rs"
| "payloads (POST url payload # rs) = payload # payloads rs"

definition cart_updates :: "world \<Rightarrow> content list" where
  "cart_updates w = payloads (requests w)"

text \<open>
  The value of an attribute in the cart the service returned, \<^verbatim>\<open>undefined\<close> when the
  cart has no such attribute.
\<close>

definition live_attribute :: "json \<Rightarrow> string \<Rightarrow> json option" where
  "live_attribute cart key = opt_member (opt_member (Some cart) ''attributes'') key"

text \<open>
  The attributes an update payload carries, as the mapping from keys to values that the
  object \<^verbatim>\<open>{ attributes }\<close> denotes.
\<close>

definition attribute_map :: "content \<Rightarrow> (string \<rightharpoonup> json)" where
  "attribute_map payload =
     (case payload of
        Unparsable s \<Rightarrow> Map.empty
      | Parsable v \<Rightarrow>
          (case opt_member (Some v) ''attributes'' of
             Some (JObj a) \<Rightarrow> map_of a
           | _ \<Rightarrow> Map.empty))"

text \<open>
  The public operations, each called under some behaviour of the host, and the state
  after a sequence of them.
\<close>

datatype operation =
    Capture host
  | Reconcile host
  | Clear host
  | ReadRecord host
  | CurrentCode host

fun perform :: "operation \<Rightarrow> world \<Rightarrow> world" where
  "perform (Capture h) w = snd (captureReferralFromURL h w)"
| "perform (Reconcile h) w = snd (syncReferralToCart h w)"
| "perform (Clear h) w = snd (clearReferral h w)"
| "perform (ReadRecord h) w = snd (getStoredReferral h w)"
| "perform (CurrentCode h) w = snd (getReferralCode h w)"

fun run :: "operation list \<Rightarrow> world \<Rightarrow> world" where
  "run [] w = w"
| "run (op # ops) w = run ops (perform op w)"

text \<open>A field that is neither \<^verbatim>\<open>undefined\<close> nor \<^verbatim>\<open>null\<close>.\<close>

fun non_null :: "json option \<Rightarrow> bool" where
  "non_null None = False"
| "non_null (Some JNull) = False"
| "non_null (Some v) = True"

text \<open>
  Either nothing is stored under the key, or a record is, and its \<open>code\<close> or its
  \<open>orderId\<close> is not \<^verbatim>\<open>null\<close>.
\<close>

definition record_invariant :: "world \<Rightarrow> bool" where
  "record_invariant w =
     (case localStorage w STORAGE_KEY of
        None \<Rightarrow> True
      | Some (Unparsable s) \<Rightarrow> False
      | Some (Parsable v) \<Rightarrow>
          non_null (opt_member (Some v) ''code'') \<or> non_null (opt_member (Some v) ''orderId''))"

text \<open>
  Concrete inputs for the examples: a host with an empty query string, a working storage
  and an unreachable cart service; a browser with nothing stored; and a browser whose
  storage holds the serialisation of a value under the key.
\<close>

definition plain_host :: host where
  "plain_host =
     \<lparr>search = [], pathname = ''/'', now = ''2024-01-01T00:00:00.000Z'',
      getItem_throws = False, setItem_throws = False, removeItem_throws = False,
      cart_js = Inl NetworkError, cart_update_js = Inl NetworkError\<rparr>"

definition fresh :: world where
  "fresh = \<lparr>localStorage = Map.empty, requests = []\<rparr>"

definition holding :: "content \<Rightarrow> world" where
  "holding t = \<lparr>localStorage = Map.empty(STORAGE_KEY \<mapsto> t), requests = []\<rparr>"

section \<open>Reading the record\<close>

lemma getStoredReferral_cases:
  "getStoredReferral h w =
     (if getItem_throws h then (Inr JNull, w)
      else case localStorage w STORAGE_KEY of
             Some (Parsable v) \<Rightarrow> (Inr v, w)
           | _ \<Rightarrow> (Inr JNull, w))"
  by (simp add: getStoredReferral_def js_try_def js_bind_def js_return_def js_throw_def
      localStorage_getItem_def split: option.splits content.splits)

text \<open>
  C6. When nothing is stored under the key, or the stored text is not valid JSON,
  \<open>getStoredReferral\<close> returns \<^verbatim>\<open>null\<close> and leaves the state as it was; it does not throw
  (the result is an \<open>Inr\<close>), whatever the storage does.
\<close>

theorem getStoredReferral_malformed:
  "(localStorage w STORAGE_KEY = None \<or> localStorage w STORAGE_KEY = Some (Unparsable s))
   \<longrightarrow> getStoredReferral h w = (Inr JNull, w)"
  by (auto simp: getStoredReferral_cases)

theorem getStoredReferral_malformed_witness:
  "getStoredReferral plain_host (holding (Unparsable ''{code:''))
     = (Inr JNull, holding (Unparsable ''{code:''))
   \<and> getStoredReferral plain_host fresh = (Inr JNull, fresh)"
  using getStoredReferral_malformed [of "holding (Unparsable ''{code:'')" "''{code:''" plain_host]
    getStoredReferral_malformed [of fresh _ plain_host]
  by (simp add: holding_def fresh_def)

section \<open>Capturing\<close>

lemma member_truthy: "truthy v \<Longrightarrow> member v k = js_return (opt_member v k)"
  by (induction v k rule: member.induct) simp_all

lemma js_or_null: "js_or v (Some JNull) = Some (or_null v)"
  by (cases v) (simp_all add: js_or_def)

lemma truthy_or_empty: "truthy (js_or v (Some (JObj [])))"
  by (simp add: js_or_def)

lemma storeReferral_effect:
  "storeReferral h referral orderId w =
     (Inr (),
      if setItem_throws h then w
      else
        w\<lparr>localStorage := (localStorage w)(STORAGE_KEY \<mapsto>
          Parsable (JObj
            [(''code'', or_null (js_or referral (opt_member (existingData h w) ''code''))),
             (''orderId'', or_null (js_or orderId (opt_member (existingData h w) ''orderId''))),
             (''capturedAt'', JStr (now h)),
             (''landingPage'', JStr (pathname h))]))\<rparr>)"
  by (simp add: storeReferral_def getStoredReferral_cases js_try_def js_bind_def js_return_def
      member_truthy truthy_or_empty js_or_null localStorage_setItem_def JSON_stringify_def
      defined_props_def List.map_filter_simps Let_def existingData_def stored_value_def
      split: option.splits content.splits)

lemma existingData_object:
  "\<not> getItem_throws h \<Longrightarrow> localStorage w STORAGE_KEY = Some (Parsable (JObj r)) \<Longrightarrow>
   existingData h w = Some (JObj r)"
  by (simp add: existingData_def stored_value_def js_or_def)

lemma or_null_keep: "v = JNull \<or> truthy (Some v) \<Longrightarrow> or_null (Some v) = v"
  by auto

lemma captureReferralFromURL_effect:
  "captureReferralFromURL h w =
     (Inr (),
      if truthy (URLSearchParams_get (search h) REFERRAL_PARAM)
         \<or> truthy (URLSearchParams_get (search h) ORDER_ID_PARAM)
      then snd (storeReferral h (URLSearchParams_get (search h) REFERRAL_PARAM)
                  (URLSearchParams_get (search h) ORDER_ID_PARAM) w)
      else w)"
  by (simp add: captureReferralFromURL_def storeReferral_effect js_return_def Let_def)

lemma truthy_param:
  "truthy (URLSearchParams_get q name) = (\<exists>v. map_of q name = Some v \<and> v \<noteq> [])"
  by (simp add: URLSearchParams_get_def split: option.splits)

lemma clearReferral_effect:
  "clearReferral h w =
     (Inr (), if removeItem_throws h then w
              else w\<lparr>localStorage := (localStorage w)(STORAGE_KEY := None)\<rparr>)"
  by (simp add: clearReferral_def js_try_def js_return_def localStorage_removeItem_def)

lemma existingData_absent:
  "localStorage w STORAGE_KEY = None \<Longrightarrow> existingData h w = Some (JObj [])"
  by (simp add: existingData_def stored_value_def js_or_def)

text \<open>
  C1, as the script has it. The claim fails when the value of \<^verbatim>\<open>ref\<close> is the empty string:
  the guard \<^verbatim>\<open>if (referral || orderId)\<close> then stores nothing, and the record keeps its old
  code.
\<close>

theorem capture_empty_ref_counterexample:
  "captureReferralFromURL (plain_host\<lparr>search := [(''ref'', '''')]\<rparr>)
     (holding (Parsable (JObj
        [(''code'', JStr ''A''), (''orderId'', JStr ''B''),
         (''capturedAt'', JStr ''2023-12-31T00:00:00.000Z''), (''landingPage'', JStr ''/'')])))
   = (Inr (),
      holding (Parsable (JObj
        [(''code'', JStr ''A''), (''orderId'', JStr ''B''),
         (''capturedAt'', JStr ''2023-12-31T00:00:00.000Z''), (''landingPage'', JStr ''/'')])))
   \<and> persisted_field
       (snd (captureReferralFromURL (plain_host\<lparr>search := [(''ref'', '''')]\<rparr>)
          (holding (Parsable (JObj
            [(''code'', JStr ''A''), (''orderId'', JStr ''B''),
             (''capturedAt'', JStr ''2023-12-31T00:00:00.000Z''),
             (''landingPage'', JStr ''/'')])))))
       ''code''
     = Some (JStr ''A'')"
  by (simp add: captureReferralFromURL_effect truthy_param REFERRAL_PARAM_def ORDER_ID_PARAM_def
      persisted_field_def holding_def)

text \<open>
  C1, amended. When the storage can be read and written: a record whose \<open>orderId\<close> is
  \<open>B\<close> (\<^verbatim>\<open>null\<close> or a truthy value, such as a non-empty string), captured with
  \<^verbatim>\<open>ref\<close> alone at a non-empty value \<open>C\<close>, becomes the record with code \<open>C\<close> and
  \<open>orderId\<close> \<open>B\<close>; the same with the two fields exchanged; and a capture with neither
  parameter changes nothing.
\<close>

theorem capture_merge:
  "(localStorage w STORAGE_KEY = Some (Parsable (JObj r)) \<and> map_of r ''orderId'' = Some B
      \<and> (B = JNull \<or> truthy (Some B))
      \<and> map_of (search h) REFERRAL_PARAM = Some C \<and> C \<noteq> []
      \<and> map_of (search h) ORDER_ID_PARAM = None
      \<and> \<not> getItem_throws h \<and> \<not> setItem_throws h
    \<longrightarrow> captureReferralFromURL h w =
          (Inr (), w\<lparr>localStorage := (localStorage w)(STORAGE_KEY \<mapsto> Parsable (JObj
             [(''code'', JStr C), (''orderId'', B),
              (''capturedAt'', JStr (now h)), (''landingPage'', JStr (pathname h))]))\<rparr>))
   \<and> (localStorage w STORAGE_KEY = Some (Parsable (JObj r)) \<and> map_of r ''code'' = Some A
      \<and> (A = JNull \<or> truthy (Some A))
      \<and> map_of (search h) REFERRAL_PARAM = None
      \<and> map_of (search h) ORDER_ID_PARAM = Some D \<and> D \<noteq> []
      \<and> \<not> getItem_throws h \<and> \<not> setItem_throws h
    \<longrightarrow> captureReferralFromURL h w =
          (Inr (), w\<lparr>localStorage := (localStorage w)(STORAGE_KEY \<mapsto> Parsable (JObj
             [(''code'', A), (''orderId'', JStr D),
              (''capturedAt'', JStr (now h)), (''landingPage'', JStr (pathname h))]))\<rparr>))
   \<and> (map_of (search h) REFERRAL_PARAM = None \<and> map_of (search h) ORDER_ID_PARAM = None
    \<longrightarrow> captureReferralFromURL h w = (Inr (), w))"
proof (intro conjI impI)
  assume a: "localStorage w STORAGE_KEY = Some (Parsable (JObj r)) \<and> map_of r ''orderId'' = Some B
      \<and> (B = JNull \<or> truthy (Some B))
      \<and> map_of (search h) REFERRAL_PARAM = Some C \<and> C \<noteq> []
      \<and> map_of (search h) ORDER_ID_PARAM = None
      \<and> \<not> getItem_throws h \<and> \<not> setItem_throws h"
  then have e: "existingData h w = Some (JObj r)"
    by (simp add: existingData_object)
  from a have "or_null (Some B) = B"
    using or_null_keep by blast
  with a e show "captureReferralFromURL h w =
          (Inr (), w\<lparr>localStorage := (localStorage w)(STORAGE_KEY \<mapsto> Parsable (JObj
             [(''code'', JStr C), (''orderId'', B),
              (''capturedAt'', JStr (now h)), (''landingPage'', JStr (pathname h))]))\<rparr>)"
    by (simp add: captureReferralFromURL_effect truthy_param URLSearchParams_get_def
        storeReferral_effect js_or_def)
next
  assume a: "localStorage w STORAGE_KEY = Some (Parsable (JObj r)) \<and> map_of r ''code'' = Some A
      \<and> (A = JNull \<or> truthy (Some A))
      \<and> map_of (search h) REFERRAL_PARAM = None
      \<and> map_of (search h) ORDER_ID_PARAM = Some D \<and> D \<noteq> []
      \<and> \<not> getItem_throws h \<and> \<not> setItem_throws h"
  then have e: "existingData h w = Some (JObj r)"
    by (simp add: existingData_object)
  from a have "or_null (Some A) = A"
    using or_null_keep by blast
  with a e show "captureReferralFromURL h w =
          (Inr (), w\<lparr>localStorage := (localStorage w)(STORAGE_KEY \<mapsto> Parsable (JObj
             [(''code'', A), (''orderId'', JStr D),
              (''capturedAt'', JStr (now h)), (''landingPage'', JStr (pathname h))]))\<rparr>)"
    by (simp add: captureReferralFromURL_effect truthy_param URLSearchParams_get_def
        storeReferral_effect js_or_def)
next
  assume "map_of (search h) REFERRAL_PARAM = None \<and> map_of (search h) ORDER_ID_PARAM = None"
  then show "captureReferralFromURL h w = (Inr (), w)"
    by (simp add: captureReferralFromURL_effect truthy_param)
qed

theorem capture_merge_witness:
  "captureReferralFromURL (plain_host\<lparr>search := [(''ref'', ''C'')]\<rparr>)
     (holding (Parsable (JObj
        [(''code'', JStr ''A''), (''orderId'', JStr ''B''),
         (''capturedAt'', JStr ''2023-12-31T00:00:00.000Z''), (''landingPage'', JStr ''/x'')])))
   = (Inr (),
      holding (Parsable (JObj
        [(''code'', JStr ''C''), (''orderId'', JStr ''B''),
         (''capturedAt'', JStr ''2024-01-01T00:00:00.000Z''), (''landingPage'', JStr ''/'')])))
   \<and> captureReferralFromURL (plain_host\<lparr>search := [(''order_id'', ''D'')]\<rparr>)
     (holding (Parsable (JObj
        [(''code'', JStr ''A''), (''orderId'', JStr ''B''),
         (''capturedAt'', JStr ''2023-12-31T00:00:00.000Z''), (''landingPage'', JStr ''/x'')])))
   = (Inr (),
      holding (Parsable (JObj
        [(''code'', JStr ''A''), (''orderId'', JStr ''D''),
         (''capturedAt'', JStr ''2024-01-01T00:00:00.000Z''), (''landingPage'', JStr ''/'')])))
   \<and> captureReferralFromURL (plain_host\<lparr>search := [(''utm'', ''x'')]\<rparr>)
     (holding (Parsable (JObj
        [(''code'', JStr ''A''), (''orderId'', JStr ''B''),
         (''capturedAt'', JStr ''2023-12-31T00:00:00.000Z''), (''landingPage'', JStr ''/x'')])))
   = (Inr (),
      holding (Parsable (JObj
        [(''code'', JStr ''A''), (''orderId'', JStr ''B''),
         (''capturedAt'', JStr ''2023-12-31T00:00:00.000Z''), (''landingPage'', JStr ''/x'')])))"
  using
    capture_merge [where C = "''C''" and B = "JStr ''B''"
      and r = "[(''code'', JStr ''A''), (''orderId'', JStr ''B''),
         (''capturedAt'', JStr ''2023-12-31T00:00:00.000Z''), (''landingPage'', JStr ''/x'')]"
      and h = "plain_host\<lparr>search := [(''ref'', ''C'')]\<rparr>"
      and w = "holding (Parsable (JObj
        [(''code'', JStr ''A''), (''orderId'', JStr ''B''),
         (''capturedAt'', JStr ''2023-12-31T00:00:00.000Z''), (''landingPage'', JStr ''/x'')]))"]
    capture_merge [where D = "''D''" and A = "JStr ''A''"
      and r = "[(''code'', JStr ''A''), (''orderId'', JStr ''B''),
         (''capturedAt'', JStr ''2023-12-31T00:00:00.000Z''), (''landingPage'', JStr ''/x'')]"
      and h = "plain_host\<lparr>search := [(''order_id'', ''D'')]\<rparr>"
      and w = "holding (Parsable (JObj
        [(''code'', JStr ''A''), (''orderId'', JStr ''B''),
         (''capturedAt'', JStr ''2023-12-31T00:00:00.000Z''), (''landingPage'', JStr ''/x'')]))"]
    capture_merge [where h = "plain_host\<lparr>search := [(''utm'', ''x'')]\<rparr>"
      and w = "holding (Parsable (JObj
        [(''code'', JStr ''A''), (''orderId'', JStr ''B''),
         (''capturedAt'', JStr ''2023-12-31T00:00:00.000Z''), (''landingPage'', JStr ''/x'')]))"]
  by (simp add: REFERRAL_PARAM_def ORDER_ID_PARAM_def plain_host_def holding_def)

text \<open>
  C8, as the script has it. The claim fails when the value of \<^verbatim>\<open>ref\<close> is the empty string:
  after \<open>clearReferral\<close>, the capture stores nothing, and there is no record at all.
\<close>

theorem clear_then_capture_empty_ref_counterexample:
  "localStorage
     (snd (captureReferralFromURL (plain_host\<lparr>search := [(''ref'', '''')]\<rparr>)
        (snd (clearReferral plain_host
           (holding (Parsable (JObj
              [(''code'', JStr ''A''), (''orderId'', JStr ''B''),
               (''capturedAt'', JStr ''2023-12-31T00:00:00.000Z''),
               (''landingPage'', JStr ''/x'')])))))))
     STORAGE_KEY
   = None"
  by (simp add: captureReferralFromURL_effect truthy_param clearReferral_effect holding_def
      plain_host_def REFERRAL_PARAM_def ORDER_ID_PARAM_def)

text \<open>
  C8, amended. When \<^verbatim>\<open>removeItem\<close> and \<^verbatim>\<open>setItem\<close> do not throw, \<open>clearReferral\<close> followed by
  a capture with \<^verbatim>\<open>ref\<close> alone at a non-empty value \<open>X\<close> leaves under the key the record
  with code \<open>X\<close>, \<open>orderId\<close> \<^verbatim>\<open>null\<close>, the time and the path of the capture, whatever was
  stored before. \<open>clearReferral\<close> changes nothing when nothing is stored, never throws, and
  clearing twice is clearing once.
\<close>

theorem clear_then_capture:
  "(\<not> removeItem_throws h \<and> \<not> setItem_throws h'
      \<and> map_of (search h') REFERRAL_PARAM = Some X \<and> X \<noteq> []
      \<and> map_of (search h') ORDER_ID_PARAM = None
    \<longrightarrow> localStorage (snd (captureReferralFromURL h' (snd (clearReferral h w)))) STORAGE_KEY =
          Some (Parsable (JObj
             [(''code'', JStr X), (''orderId'', JNull),
              (''capturedAt'', JStr (now h')), (''landingPage'', JStr (pathname h'))])))
   \<and> (localStorage w STORAGE_KEY = None \<longrightarrow> clearReferral h w = (Inr (), w))
   \<and> fst (clearReferral h w) = Inr ()
   \<and> clearReferral h (snd (clearReferral h w)) = clearReferral h w"
proof (intro conjI impI)
  assume a: "\<not> removeItem_throws h \<and> \<not> setItem_throws h'
      \<and> map_of (search h') REFERRAL_PARAM = Some X \<and> X \<noteq> []
      \<and> map_of (search h') ORDER_ID_PARAM = None"
  define w' where "w' = snd (clearReferral h w)"
  from a have "localStorage w' STORAGE_KEY = None"
    by (simp add: w'_def clearReferral_effect)
  then have "existingData h' w' = Some (JObj [])"
    by (rule existingData_absent)
  with a show "localStorage (snd (captureReferralFromURL h' (snd (clearReferral h w)))) STORAGE_KEY =
          Some (Parsable (JObj
             [(''code'', JStr X), (''orderId'', JNull),
              (''capturedAt'', JStr (now h')), (''landingPage'', JStr (pathname h'))]))"
    unfolding w'_def [symmetric]
    by (simp add: captureReferralFromURL_effect truthy_param storeReferral_effect
        URLSearchParams_get_def js_or_def)
next
  assume "localStorage w STORAGE_KEY = None"
  then have "(localStorage w)(STORAGE_KEY := None) = localStorage w"
    by (metis fun_upd_triv)
  then show "clearReferral h w = (Inr (), w)"
    by (simp add: clearReferral_effect)
next
  show "fst (clearReferral h w) = Inr ()"
    by (simp add: clearReferral_effect)
next
  show "clearReferral h (snd (clearReferral h w)) = clearReferral h w"
    by (simp add: clearReferral_effect)
qed

theorem clear_then_capture_witness:
  "localStorage
     (snd (captureReferralFromURL (plain_host\<lparr>search := [(''ref'', ''store1'')]\<rparr>)
        (snd (clearReferral plain_host
           (holding (Parsable (JObj
              [(''code'', JStr ''A''), (''orderId'', JStr ''B''),
               (''capturedAt'', JStr ''2023-12-31T00:00:00.000Z''),
               (''landingPage'', JStr ''/x'')])))))))
     STORAGE_KEY
   = Some (Parsable (JObj
       [(''code'', JStr ''store1''), (''orderId'', JNull),
        (''capturedAt'', JStr ''2024-01-01T00:00:00.000Z''), (''landingPage'', JStr ''/'')]))
   \<and> clearReferral plain_host fresh = (Inr (), fresh)"
  using
    clear_then_capture [where h = plain_host
      and h' = "plain_host\<lparr>search := [(''ref'', ''store1'')]\<rparr>" and X = "''store1''"
      and w = "holding (Parsable (JObj
              [(''code'', JStr ''A''), (''orderId'', JStr ''B''),
               (''capturedAt'', JStr ''2023-12-31T00:00:00.000Z''),
               (''landingPage'', JStr ''/x'')]))"]
    clear_then_capture [where h = plain_host and w = fresh]
  by (simp add: REFERRAL_PARAM_def ORDER_ID_PARAM_def plain_host_def fresh_def)

section \<open>Reconciling\<close>

lemma js_return_apply: "js_return x w = (Inr x, w)"
  by (simp add: js_return_def)

lemma bind_return: "js_bind (js_return x) f = f x"
  by (simp add: js_bind_def js_return_def)

lemma bind_getStoredReferral: "js_bind (getStoredReferral h) f w = f (stored_value h w) w"
  by (simp add: js_bind_def getStoredReferral_cases stored_value_def
      split: option.splits content.splits)

lemma keeps_return: "keeps_storage (js_return x)"
  by (simp add: keeps_storage_def js_return_def)

lemma keeps_throw: "keeps_storage (js_throw e)"
  by (simp add: keeps_storage_def js_throw_def)

lemma keeps_bind:
  assumes "keeps_storage m" and "\<And>x. keeps_storage (f x)"
  shows "keeps_storage (js_bind m f)"
  unfolding keeps_storage_def
proof
  fix w
  from assms(1) have m: "localStorage (snd (m w)) = localStorage w"
    by (simp add: keeps_storage_def)
  show "localStorage (snd (js_bind m f w)) = localStorage w"
  proof (cases "m w")
    case (Pair r w')
    with m have w': "localStorage w' = localStorage w" by simp
    show ?thesis
    proof (cases r)
      case (Inl e)
      with Pair w' show ?thesis by (simp add: js_bind_def)
    next
      case (Inr x)
      from assms(2) have "localStorage (snd (f x w')) = localStorage w'"
        by (simp add: keeps_storage_def)
      with Pair Inr w' show ?thesis by (simp add: js_bind_def)
    qed
  qed
qed

lemma keeps_try:
  assumes "keeps_storage m" and "\<And>e. keeps_storage (handler e)"
  shows "keeps_storage (js_try m handler)"
  unfolding keeps_storage_def
proof
  fix w
  from assms(1) have m: "localStorage (snd (m w)) = localStorage w"
    by (simp add: keeps_storage_def)
  show "localStorage (snd (js_try m handler w)) = localStorage w"
  proof (cases "m w")
    case (Pair r w')
    with m have w': "localStorage w' = localStorage w" by simp
    show ?thesis
    proof (cases r)
      case (Inl e)
      from assms(2) have "localStorage (snd (handler e w')) = localStorage w'"
        by (simp add: keeps_storage_def)
      with Pair Inl w' show ?thesis by (simp add: js_try_def)
    next
      case (Inr x)
      with Pair w' show ?thesis by (simp add: js_try_def)
    qed
  qed
qed

lemma keeps_if:
  "keeps_storage a \<Longrightarrow> keeps_storage b \<Longrightarrow> keeps_storage (if c then a else b)"
  by simp

lemma keeps_member: "keeps_storage (member v k)"
  by (induction v k rule: member.induct) (simp_all add: keeps_return keeps_throw)

lemma keeps_JSON_parse: "keeps_storage (JSON_parse t)"
  by (cases t) (simp_all add: keeps_return keeps_throw)

lemma keeps_fetch: "keeps_storage (fetch h req)"
  by (simp add: keeps_storage_def fetch_def)

lemma keeps_getStoredReferral: "keeps_storage (getStoredReferral h)"
  by (simp add: keeps_storage_def getStoredReferral_cases split: option.splits content.splits)

lemma keeps_attribute_matches: "keeps_storage (attribute_matches field cart key)"
  unfolding attribute_matches_def
  by (intro keeps_if keeps_bind keeps_return keeps_member)

lemma keeps_syncReferralToCart: "keeps_storage (syncReferralToCart h)"
  unfolding syncReferralToCart_def response_json_def Let_def
  by (intro keeps_if keeps_bind keeps_try keeps_return keeps_member keeps_fetch
      keeps_JSON_parse keeps_attribute_matches keeps_getStoredReferral)

lemma js_try_unit: "fst (js_try m (\<lambda>e. js_return ()) w) = Inr ()"
  by (cases "m w") (auto simp: js_try_def js_return_def split: sum.splits)

lemma syncReferralToCart_returns: "fst (syncReferralToCart h w) = Inr ()"
  by (simp add: syncReferralToCart_def bind_getStoredReferral member_truthy bind_return
      js_try_unit js_return_apply)

text \<open>
  C7. Whatever is stored and however the host behaves (the fetch of the cart rejected,
  its body not JSON, the cart matching the record, the update rejected, answered with a
  failure status or with success), \<open>syncReferralToCart\<close> returns normally and leaves
  \<^verbatim>\<open>localStorage\<close> as it was.
\<close>

theorem syncReferralToCart_frame:
  "fst (syncReferralToCart h w) = Inr ()
   \<and> localStorage (snd (syncReferralToCart h w)) = localStorage w"
  using keeps_syncReferralToCart [of h] syncReferralToCart_returns [of h w]
  by (simp add: keeps_storage_def)

lemma key_distinct:
  "CART_ATTRIBUTE_KEY \<noteq> ORDER_ID_ATTRIBUTE_KEY"
  "LANDING_PAGE_ATTRIBUTE_KEY \<noteq> ORDER_ID_ATTRIBUTE_KEY"
  "CAPTURED_AT_ATTRIBUTE_KEY \<noteq> ORDER_ID_ATTRIBUTE_KEY"
  "LANDING_PAGE_ATTRIBUTE_KEY \<noteq> CART_ATTRIBUTE_KEY"
  "CAPTURED_AT_ATTRIBUTE_KEY \<noteq> CART_ATTRIBUTE_KEY"
  "LANDING_PAGE_ATTRIBUTE_KEY \<noteq> CAPTURED_AT_ATTRIBUTE_KEY"
  by (simp_all add: CART_ATTRIBUTE_KEY_def ORDER_ID_ATTRIBUTE_KEY_def
      LANDING_PAGE_ATTRIBUTE_KEY_def CAPTURED_AT_ATTRIBUTE_KEY_def)

lemma stored_value_record:
  "\<not> getItem_throws h \<Longrightarrow> localStorage w STORAGE_KEY = Some (Parsable v) \<Longrightarrow>
   stored_value h w = v"
  by (simp add: stored_value_def)

text \<open>
  C4. The storage is readable and holds a record with code \<^verbatim>\<open>"store1"\<close>, \<open>orderId\<close>
  \<^verbatim>\<open>null\<close>, a landing page and a capture time; the cart service returns a cart whose
  \<open>attributes\<close> is the empty object. Then \<open>syncReferralToCart\<close> issues the fetch of the
  cart and exactly one update, whose attributes are the landing page, the capture time
  and the referral key set to \<^verbatim>\<open>"store1"\<close>; the order-id key is not among them.
\<close>

theorem sync_writes_code_only:
  assumes "localStorage w STORAGE_KEY = Some (Parsable (JObj r))"
    and "map_of r ''code'' = Some (JStr ''store1'')"
    and "map_of r ''orderId'' = Some JNull"
    and "map_of r ''landingPage'' = Some p"
    and "map_of r ''capturedAt'' = Some t"
    and "\<not> getItem_throws h"
    and "cart_js h = Inr resp"
    and "body resp = Parsable (JObj c)"
    and "map_of c ''attributes'' = Some (JObj [])"
  shows "requests (snd (syncReferralToCart h w)) =
           requests w @
           [GET ''/cart.js'',
            POST ''/cart/update.js'' (Parsable (JObj [(''attributes'', JObj
              [(LANDING_PAGE_ATTRIBUTE_KEY, p),
               (CAPTURED_AT_ATTRIBUTE_KEY, t),
               (CART_ATTRIBUTE_KEY, JStr ''store1'')])]))]
         \<and> map_of [(LANDING_PAGE_ATTRIBUTE_KEY, p),
               (CAPTURED_AT_ATTRIBUTE_KEY, t),
               (CART_ATTRIBUTE_KEY, JStr ''store1'')] ORDER_ID_ATTRIBUTE_KEY = None"
proof
  from assms have v: "stored_value h w = JObj r"
    by (simp add: stored_value_record)
  show "requests (snd (syncReferralToCart h w)) =
           requests w @
           [GET ''/cart.js'',
            POST ''/cart/update.js'' (Parsable (JObj [(''attributes'', JObj
              [(LANDING_PAGE_ATTRIBUTE_KEY, p),
               (CAPTURED_AT_ATTRIBUTE_KEY, t),
               (CART_ATTRIBUTE_KEY, JStr ''store1'')])]))]"
    using assms(2-5,7-9)
    apply (simp add: syncReferralToCart_def bind_getStoredReferral v member_truthy bind_return
        js_return_apply)
    apply (simp add: v member_truthy js_try_def js_bind_def js_return_def fetch_def
        response_json_def attribute_matches_def JSON_stringify_def defined_props_def
        List.map_filter_simps Let_def split: sum.splits)
    done
next
  show "map_of [(LANDING_PAGE_ATTRIBUTE_KEY, p),
               (CAPTURED_AT_ATTRIBUTE_KEY, t),
               (CART_ATTRIBUTE_KEY, JStr ''store1'')] ORDER_ID_ATTRIBUTE_KEY = None"
    using key_distinct by simp
qed

theorem sync_writes_code_only_witness:
  "requests (snd (syncReferralToCart
     (plain_host\<lparr>cart_js := Inr \<lparr>ok = True, body = Parsable (JObj
         [(''token'', JStr ''c1''), (''attributes'', JObj [])])\<rparr>,
        cart_update_js := Inr \<lparr>ok = True, body = Parsable (JObj [])\<rparr>\<rparr>)
     (holding (Parsable (JObj
        [(''code'', JStr ''store1''), (''orderId'', JNull),
         (''capturedAt'', JStr ''2023-12-31T00:00:00.000Z''), (''landingPage'', JStr ''/x'')])))))
   = [GET ''/cart.js'',
      POST ''/cart/update.js'' (Parsable (JObj [(''attributes'', JObj
         [(LANDING_PAGE_ATTRIBUTE_KEY, JStr ''/x''),
          (CAPTURED_AT_ATTRIBUTE_KEY, JStr ''2023-12-31T00:00:00.000Z''),
          (CART_ATTRIBUTE_KEY, JStr ''store1'')])]))]"
  using sync_writes_code_only [where p = "JStr ''/x''" and t = "JStr ''2023-12-31T00:00:00.000Z''"
      and r = "[(''code'', JStr ''store1''), (''orderId'', JNull),
         (''capturedAt'', JStr ''2023-12-31T00:00:00.000Z''), (''landingPage'', JStr ''/x'')]"
      and c = "[(''token'', JStr ''c1''), (''attributes'', JObj [])]"
      and resp = "\<lparr>ok = True, body = Parsable (JObj
         [(''token'', JStr ''c1''), (''attributes'', JObj [])])\<rparr>"
      and h = "plain_host\<lparr>cart_js := Inr \<lparr>ok = True, body = Parsable (JObj
         [(''token'', JStr ''c1''), (''attributes'', JObj [])])\<rparr>,
        cart_update_js := Inr \<lparr>ok = True, body = Parsable (JObj [])\<rparr>\<rparr>"
      and w = "holding (Parsable (JObj
        [(''code'', JStr ''store1''), (''orderId'', JNull),
         (''capturedAt'', JStr ''2023-12-31T00:00:00.000Z''), (''landingPage'', JStr ''/x'')]))"]
  by (simp add: plain_host_def holding_def)

text \<open>
  C5. The storage is readable and holds a record with code \<^verbatim>\<open>"store1"\<close>, \<open>orderId\<close>
  \<^verbatim>\<open>"99"\<close>, a landing page and a capture time; the cart's only attribute is the
  referral key, at \<^verbatim>\<open>"store1"\<close>. Then \<open>syncReferralToCart\<close> still issues an update, and
  its attributes carry both tracked keys, at \<^verbatim>\<open>"store1"\<close> and \<^verbatim>\<open>"99"\<close>.
\<close>

theorem sync_partial_match:
  assumes "localStorage w STORAGE_KEY = Some (Parsable (JObj r))"
    and "map_of r ''code'' = Some (JStr ''store1'')"
    and "map_of r ''orderId'' = Some (JStr ''99'')"
    and "map_of r ''landingPage'' = Some p"
    and "map_of r ''capturedAt'' = Some t"
    and "\<not> getItem_throws h"
    and "cart_js h = Inr resp"
    and "body resp = Parsable (JObj c)"
    and "map_of c ''attributes'' = Some (JObj [(CART_ATTRIBUTE_KEY, JStr ''store1'')])"
  shows "requests (snd (syncReferralToCart h w)) =
           requests w @
           [GET ''/cart.js'',
            POST ''/cart/update.js'' (Parsable (JObj [(''attributes'', JObj
              [(LANDING_PAGE_ATTRIBUTE_KEY, p),
               (CAPTURED_AT_ATTRIBUTE_KEY, t),
               (CART_ATTRIBUTE_KEY, JStr ''store1''),
               (ORDER_ID_ATTRIBUTE_KEY, JStr ''99'')])]))]"
proof -
  from assms have v: "stored_value h w = JObj r"
    by (simp add: stored_value_record)
  show ?thesis
    using assms(2-5,7-9) key_distinct
    apply (simp add: syncReferralToCart_def bind_getStoredReferral v member_truthy bind_return
        js_return_apply)
    apply (simp add: v member_truthy js_try_def js_bind_def js_return_def fetch_def
        response_json_def attribute_matches_def JSON_stringify_def defined_props_def
        List.map_filter_simps Let_def split: sum.splits)
    done
qed

theorem sync_partial_match_witness:
  "requests (snd (syncReferralToCart
     (plain_host\<lparr>cart_js := Inr \<lparr>ok = True, body = Parsable (JObj
         [(''token'', JStr ''c1''),
          (''attributes'', JObj [(CART_ATTRIBUTE_KEY, JStr ''store1'')])])\<rparr>,
        cart_update_js := Inr \<lparr>ok = True, body = Parsable (JObj [])\<rparr>\<rparr>)
     (holding (Parsable (JObj
        [(''code'', JStr ''store1''), (''orderId'', JStr ''99''),
         (''capturedAt'', JStr ''2023-12-31T00:00:00.000Z''), (''landingPage'', JStr ''/x'')])))))
   = [GET ''/cart.js'',
      POST ''/cart/update.js'' (Parsable (JObj [(''attributes'', JObj
         [(LANDING_PAGE_ATTRIBUTE_KEY, JStr ''/x''),
          (CAPTURED_AT_ATTRIBUTE_KEY, JStr ''2023-12-31T00:00:00.000Z''),
          (CART_ATTRIBUTE_KEY, JStr ''store1''),
          (ORDER_ID_ATTRIBUTE_KEY, JStr ''99'')])]))]"
  using sync_partial_match [where p = "JStr ''/x''" and t = "JStr ''2023-12-31T00:00:00.000Z''"
      and r = "[(''code'', JStr ''store1''), (''orderId'', JStr ''99''),
         (''capturedAt'', JStr ''2023-12-31T00:00:00.000Z''), (''landingPage'', JStr ''/x'')]"
      and c = "[(''token'', JStr ''c1''),
          (''attributes'', JObj [(CART_ATTRIBUTE_KEY, JStr ''store1'')])]"
      and resp = "\<lparr>ok = True, body = Parsable (JObj
         [(''token'', JStr ''c1''),
          (''attributes'', JObj [(CART_ATTRIBUTE_KEY, JStr ''store1'')])])\<rparr>"
      and h = "plain_host\<lparr>cart_js := Inr \<lparr>ok = True, body = Parsable (JObj
         [(''token'', JStr ''c1''),
          (''attributes'', JObj [(CART_ATTRIBUTE_KEY, JStr ''store1'')])])\<rparr>,
        cart_update_js := Inr \<lparr>ok = True, body = Parsable (JObj [])\<rparr>\<rparr>"
      and w = "holding (Parsable (JObj
        [(''code'', JStr ''store1''), (''orderId'', JStr ''99''),
         (''capturedAt'', JStr ''2023-12-31T00:00:00.000Z''), (''landingPage'', JStr ''/x'')]))"]
  by (simp add: plain_host_def holding_def)

lemma payloads_append: "payloads (xs @ ys) = payloads xs @ payloads ys"
  by (induction xs rule: payloads.induct) simp_all

lemma attribute_matches_unset:
  "\<not> truthy field \<Longrightarrow> attribute_matches field cart key w = (Inr True, w)"
  by (simp add: attribute_matches_def js_return_def)

lemma live_attribute_object:
  assumes "live_attribute cart key = Some x"
  obtains c a where "cart = JObj c" and "map_of c ''attributes'' = Some (JObj a)"
    and "map_of a key = Some x"
proof -
  from assms obtain c where c: "cart = JObj c"
    by (cases cart) (simp_all add: live_attribute_def)
  with assms obtain y where y: "map_of c ''attributes'' = Some y"
    by (cases "map_of c ''attributes''") (simp_all add: live_attribute_def)
  with assms c obtain a where a: "y = JObj a"
    by (cases y) (simp_all add: live_attribute_def)
  with assms c y have "map_of a key = Some x"
    by (simp add: live_attribute_def)
  with c y a that show thesis by blast
qed

lemma attribute_matches_equal:
  assumes "live_attribute cart key = Some (JStr s)"
  shows "attribute_matches (Some (JStr s)) cart key w = (Inr True, w)"
proof -
  from assms obtain c a where "cart = JObj c" and "map_of c ''attributes'' = Some (JObj a)"
    and "map_of a key = Some (JStr s)"
    by (rule live_attribute_object)
  then show ?thesis
    by (simp add: attribute_matches_def js_bind_def js_return_def)
qed

lemma attribute_matches_field:
  assumes "truthy field \<longrightarrow>
           (\<exists>s. field = Some (JStr s) \<and> live_attribute cart key = Some (JStr s))"
  shows "attribute_matches field cart key w = (Inr True, w)"
  using assms attribute_matches_unset attribute_matches_equal by metis

lemma sync_no_update:
  assumes "cart_js h = Inr resp"
    and "body resp = Parsable cart"
    and "truthy (opt_member (Some (stored_value h w)) ''code'') \<longrightarrow>
         (\<exists>s. opt_member (Some (stored_value h w)) ''code'' = Some (JStr s)
              \<and> live_attribute cart CART_ATTRIBUTE_KEY = Some (JStr s))"
    and "truthy (opt_member (Some (stored_value h w)) ''orderId'') \<longrightarrow>
         (\<exists>s. opt_member (Some (stored_value h w)) ''orderId'' = Some (JStr s)
              \<and> live_attribute cart ORDER_ID_ATTRIBUTE_KEY = Some (JStr s))"
  shows "cart_updates (snd (syncReferralToCart h w)) = cart_updates w"
proof -
  have m1: "\<And>w'. attribute_matches (opt_member (Some (stored_value h w)) ''code'') cart
              CART_ATTRIBUTE_KEY w' = (Inr True, w')"
    using assms(3) by (rule attribute_matches_field)
  have m2: "\<And>w'. attribute_matches (opt_member (Some (stored_value h w)) ''orderId'') cart
              ORDER_ID_ATTRIBUTE_KEY w' = (Inr True, w')"
    using assms(4) by (rule attribute_matches_field)
  show ?thesis
    using assms(1,2)
    apply (simp add: syncReferralToCart_def bind_getStoredReferral member_truthy bind_return
        js_return_apply)
    apply (simp add: member_truthy js_try_def js_bind_def js_return_def fetch_def
        response_json_def m1 m2 cart_updates_def payloads_append)
    done
qed

lemma stored_value_cases:
  "localStorage w STORAGE_KEY = Some (Parsable v) \<Longrightarrow>
   stored_value h w = v \<or> stored_value h w = JNull"
  by (simp add: stored_value_def)

text \<open>
  C3. A record \<open>v\<close> is stored and the cart service returns a cart. If each of \<open>code\<close> and
  \<open>orderId\<close> that is set in the record (truthy, as the script tests it) is a string equal
  to the cart's attribute under the corresponding key, then \<open>syncReferralToCart\<close> issues
  no update: the updates issued are those issued before the call.
\<close>

theorem sync_idempotent:
  assumes "localStorage w STORAGE_KEY = Some (Parsable v)"
    and "cart_js h = Inr resp"
    and "body resp = Parsable cart"
    and "truthy (opt_member (Some v) ''code'') \<longrightarrow>
         (\<exists>s. opt_member (Some v) ''code'' = Some (JStr s)
              \<and> live_attribute cart CART_ATTRIBUTE_KEY = Some (JStr s))"
    and "truthy (opt_member (Some v) ''orderId'') \<longrightarrow>
         (\<exists>s. opt_member (Some v) ''orderId'' = Some (JStr s)
              \<and> live_attribute cart ORDER_ID_ATTRIBUTE_KEY = Some (JStr s))"
  shows "cart_updates (snd (syncReferralToCart h w)) = cart_updates w"
proof -
  from assms(1) have "stored_value h w = v \<or> stored_value h w = JNull"
    by (rule stored_value_cases)
  then show ?thesis
  proof
    assume "stored_value h w = v"
    with assms(2-5) show ?thesis
      by (intro sync_no_update [of h resp cart w]) simp_all
  next
    assume "stored_value h w = JNull"
    with assms(2,3) show ?thesis
      by (intro sync_no_update [of h resp cart w]) simp_all
  qed
qed

theorem sync_idempotent_witness:
  "cart_updates (snd (syncReferralToCart
     (plain_host\<lparr>cart_js := Inr \<lparr>ok = True, body = Parsable (JObj
         [(''token'', JStr ''c1''),
          (''attributes'', JObj [(CART_ATTRIBUTE_KEY, JStr ''store1''),
             (ORDER_ID_ATTRIBUTE_KEY, JStr ''99'')])])\<rparr>\<rparr>)
     (holding (Parsable (JObj
        [(''code'', JStr ''store1''), (''orderId'', JStr ''99''),
         (''capturedAt'', JStr ''2023-12-31T00:00:00.000Z''), (''landingPage'', JStr ''/x'')])))))
   = []"
  using sync_idempotent [where
      v = "JObj [(''code'', JStr ''store1''), (''orderId'', JStr ''99''),
         (''capturedAt'', JStr ''2023-12-31T00:00:00.000Z''), (''landingPage'', JStr ''/x'')]"
      and cart = "JObj [(''token'', JStr ''c1''),
          (''attributes'', JObj [(CART_ATTRIBUTE_KEY, JStr ''store1''),
             (ORDER_ID_ATTRIBUTE_KEY, JStr ''99'')])]"
      and resp = "\<lparr>ok = True, body = Parsable (JObj
         [(''token'', JStr ''c1''),
          (''attributes'', JObj [(CART_ATTRIBUTE_KEY, JStr ''store1''),
             (ORDER_ID_ATTRIBUTE_KEY, JStr ''99'')])])\<rparr>"
      and h = "plain_host\<lparr>cart_js := Inr \<lparr>ok = True, body = Parsable (JObj
         [(''token'', JStr ''c1''),
          (''attributes'', JObj [(CART_ATTRIBUTE_KEY, JStr ''store1''),
             (ORDER_ID_ATTRIBUTE_KEY, JStr ''99'')])])\<rparr>\<rparr>"
      and w = "holding (Parsable (JObj
        [(''code'', JStr ''store1''), (''orderId'', JStr ''99''),
         (''capturedAt'', JStr ''2023-12-31T00:00:00.000Z''), (''landingPage'', JStr ''/x'')]))"]
    key_distinct
  by (simp add: holding_def live_attribute_def cart_updates_def)

section \<open>The earlier version\<close>

lemma same_attribute_map:
  "attribute_map (JSON_stringify [(''attributes'', Some (JObj (defined_props
       [(CART_ATTRIBUTE_KEY, Some c), (LANDING_PAGE_ATTRIBUTE_KEY, lp),
        (CAPTURED_AT_ATTRIBUTE_KEY, ca)])))])
   = attribute_map (JSON_stringify [(''attributes'', Some (JObj (defined_props
       [(LANDING_PAGE_ATTRIBUTE_KEY, lp), (CAPTURED_AT_ATTRIBUTE_KEY, ca),
        (CART_ATTRIBUTE_KEY, Some c)])))])"
  using key_distinct
  by (cases lp; cases ca)
    (auto simp: attribute_map_def JSON_stringify_def defined_props_def List.map_filter_simps
      fun_eq_iff)

text \<open>
  C10. A record is stored whose code is a non-empty string and whose \<open>orderId\<close> is
  \<^verbatim>\<open>null\<close> or missing. Whatever the cart service answers, the earlier and the current
  \<open>syncReferralToCart\<close> return alike and issue the same number of updates (they write
  or skip together), and where they write, the attributes of the two payloads are the
  same mapping from keys to values.
\<close>

theorem legacy_agrees:
  assumes "localStorage w STORAGE_KEY = Some (Parsable (JObj r))"
    and "map_of r ''code'' = Some (JStr s)" and "s \<noteq> []"
    and "map_of r ''orderId'' = None \<or> map_of r ''orderId'' = Some JNull"
  shows "fst (syncReferralToCart_legacy h w) = fst (syncReferralToCart h w)
       \<and> map attribute_map (cart_updates (snd (syncReferralToCart_legacy h w)))
         = map attribute_map (cart_updates (snd (syncReferralToCart h w)))"
proof (cases "getItem_throws h")
  case True
  then have "stored_value h w = JNull"
    by (simp add: stored_value_def)
  then show ?thesis
    by (simp add: syncReferralToCart_def syncReferralToCart_legacy_def bind_getStoredReferral
        js_return_apply)
next
  case False
  with assms have v: "stored_value h w = JObj r"
    by (simp add: stored_value_record)
  from assms have o: "\<not> truthy (map_of r ''orderId'')"
    by auto
  note sam = same_attribute_map [of "JStr s" "map_of r ''landingPage''" "map_of r ''capturedAt''"]
  show ?thesis
    using assms(2,3) o sam
    apply (simp add: syncReferralToCart_def syncReferralToCart_legacy_def
        bind_getStoredReferral v member_truthy bind_return js_return_apply)
    apply (simp add: v member_truthy js_try_def js_bind_def js_return_def fetch_def
        response_json_def attribute_matches_def Let_def cart_updates_def payloads_append
        split: sum.splits content.splits prod.splits)
    done
qed

theorem legacy_agrees_witness:
  "fst (syncReferralToCart_legacy
     (plain_host\<lparr>cart_js := Inr \<lparr>ok = True, body = Parsable (JObj
         [(''token'', JStr ''c1''), (''attributes'', JObj [])])\<rparr>\<rparr>)
     (holding (Parsable (JObj
        [(''code'', JStr ''store1''),
         (''capturedAt'', JStr ''2023-12-31T00:00:00.000Z''), (''landingPage'', JStr ''/x'')]))))
   = fst (syncReferralToCart
     (plain_host\<lparr>cart_js := Inr \<lparr>ok = True, body = Parsable (JObj
         [(''token'', JStr ''c1''), (''attributes'', JObj [])])\<rparr>\<rparr>)
     (holding (Parsable (JObj
        [(''code'', JStr ''store1''),
         (''capturedAt'', JStr ''2023-12-31T00:00:00.000Z''), (''landingPage'', JStr ''/x'')]))))
   \<and> map attribute_map (cart_updates (snd (syncReferralToCart_legacy
     (plain_host\<lparr>cart_js := Inr \<lparr>ok = True, body = Parsable (JObj
         [(''token'', JStr ''c1''), (''attributes'', JObj [])])\<rparr>\<rparr>)
     (holding (Parsable (JObj
        [(''code'', JStr ''store1''),
         (''capturedAt'', JStr ''2023-12-31T00:00:00.000Z''), (''landingPage'', JStr ''/x'')]))))))
   = map attribute_map (cart_updates (snd (syncReferralToCart
     (plain_host\<lparr>cart_js := Inr \<lparr>ok = True, body = Parsable (JObj
         [(''token'', JStr ''c1''), (''attributes'', JObj [])])\<rparr>\<rparr>)
     (holding (Parsable (JObj
        [(''code'', JStr ''store1''),
         (''capturedAt'', JStr ''2023-12-31T00:00:00.000Z''), (''landingPage'', JStr ''/x'')]))))))"
  using legacy_agrees [where s = "''store1''"
      and r = "[(''code'', JStr ''store1''),
         (''capturedAt'', JStr ''2023-12-31T00:00:00.000Z''), (''landingPage'', JStr ''/x'')]"
      and h = "plain_host\<lparr>cart_js := Inr \<lparr>ok = True, body = Parsable (JObj
         [(''token'', JStr ''c1''), (''attributes'', JObj [])])\<rparr>\<rparr>"
      and w = "holding (Parsable (JObj
        [(''code'', JStr ''store1''),
         (''capturedAt'', JStr ''2023-12-31T00:00:00.000Z''), (''landingPage'', JStr ''/x'')]))"]
  by (simp add: holding_def)

section \<open>Empty parameters\<close>

lemma existingData_search: "existingData (h\<lparr>search := q\<rparr>) w = existingData h w"
  by (simp add: existingData_def stored_value_def)

lemma js_or_falsy: "\<not> truthy a \<Longrightarrow> js_or a b = b"
  by (simp add: js_or_def)

lemma getReferralCode_effect:
  "getReferralCode h w =
     (Inr (Some (or_null (opt_member (Some (stored_value h w)) ''code''))), w)"
  by (simp add: getReferralCode_def bind_getStoredReferral js_return_apply js_or_null)

lemma capture_without_ref:
  assumes "\<not> truthy (URLSearchParams_get q REFERRAL_PARAM)"
    and "\<not> truthy (URLSearchParams_get q' REFERRAL_PARAM)"
    and "URLSearchParams_get q' ORDER_ID_PARAM = URLSearchParams_get q ORDER_ID_PARAM"
  shows "captureReferralFromURL (h\<lparr>search := q\<rparr>) w
       = captureReferralFromURL (h\<lparr>search := q'\<rparr>) w"
  using assms
  by (simp add: captureReferralFromURL_effect storeReferral_effect existingData_search
      js_or_falsy)

lemma capture_without_order_id:
  assumes "\<not> truthy (URLSearchParams_get q ORDER_ID_PARAM)"
    and "\<not> truthy (URLSearchParams_get q' ORDER_ID_PARAM)"
    and "URLSearchParams_get q' REFERRAL_PARAM = URLSearchParams_get q REFERRAL_PARAM"
  shows "captureReferralFromURL (h\<lparr>search := q\<rparr>) w
       = captureReferralFromURL (h\<lparr>search := q'\<rparr>) w"
  using assms
  by (simp add: captureReferralFromURL_effect storeReferral_effect existingData_search
      js_or_falsy)

lemma persisted_field_record:
  "localStorage w STORAGE_KEY = Some (Parsable (JObj r)) \<Longrightarrow> persisted_field w k = map_of r k"
  by (simp add: persisted_field_def)

text \<open>
  C9. A tracked parameter that is present with the empty string as its value is treated
  as an absent one: the capture does the same as with the query string where that
  parameter is missing (the other parameter being the same); a capture in which each of
  the two parameters is absent or empty changes nothing; when the storage is readable,
  an empty \<^verbatim>\<open>ref\<close> leaves a stored non-empty code in the record, and an empty
  \<^verbatim>\<open>order_id\<close> a stored non-empty \<open>orderId\<close>, whatever the other parameter is; and
  \<open>getReferralCode\<close> returns \<^verbatim>\<open>null\<close> when the stored code is the empty string.
\<close>

theorem empty_parameter_is_absent:
  "(map_of q REFERRAL_PARAM = Some [] \<and> map_of q' REFERRAL_PARAM = None
      \<and> map_of q' ORDER_ID_PARAM = map_of q ORDER_ID_PARAM
    \<longrightarrow> captureReferralFromURL (h\<lparr>search := q\<rparr>) w
        = captureReferralFromURL (h\<lparr>search := q'\<rparr>) w)
   \<and> (map_of q ORDER_ID_PARAM = Some [] \<and> map_of q' ORDER_ID_PARAM = None
      \<and> map_of q' REFERRAL_PARAM = map_of q REFERRAL_PARAM
    \<longrightarrow> captureReferralFromURL (h\<lparr>search := q\<rparr>) w
        = captureReferralFromURL (h\<lparr>search := q'\<rparr>) w)
   \<and> ((map_of (search h) REFERRAL_PARAM = None \<or> map_of (search h) REFERRAL_PARAM = Some [])
      \<and> (map_of (search h) ORDER_ID_PARAM = None \<or> map_of (search h) ORDER_ID_PARAM = Some [])
    \<longrightarrow> captureReferralFromURL h w = (Inr (), w))
   \<and> (localStorage w STORAGE_KEY = Some (Parsable (JObj r))
      \<and> map_of r ''code'' = Some (JStr A) \<and> A \<noteq> []
      \<and> map_of (search h) REFERRAL_PARAM = Some [] \<and> \<not> getItem_throws h
    \<longrightarrow> persisted_field (snd (captureReferralFromURL h w)) ''code'' = Some (JStr A))
   \<and> (localStorage w STORAGE_KEY = Some (Parsable (JObj r))
      \<and> map_of r ''orderId'' = Some (JStr B) \<and> B \<noteq> []
      \<and> map_of (search h) ORDER_ID_PARAM = Some [] \<and> \<not> getItem_throws h
    \<longrightarrow> persisted_field (snd (captureReferralFromURL h w)) ''orderId'' = Some (JStr B))
   \<and> (persisted_field w ''code'' = Some (JStr [])
    \<longrightarrow> getReferralCode h w = (Inr (Some JNull), w))"
proof (intro conjI impI)
  assume "map_of q REFERRAL_PARAM = Some [] \<and> map_of q' REFERRAL_PARAM = None
      \<and> map_of q' ORDER_ID_PARAM = map_of q ORDER_ID_PARAM"
  then show "captureReferralFromURL (h\<lparr>search := q\<rparr>) w
           = captureReferralFromURL (h\<lparr>search := q'\<rparr>) w"
    by (intro capture_without_ref) (simp_all add: URLSearchParams_get_def)
next
  assume "map_of q ORDER_ID_PARAM = Some [] \<and> map_of q' ORDER_ID_PARAM = None
      \<and> map_of q' REFERRAL_PARAM = map_of q REFERRAL_PARAM"
  then show "captureReferralFromURL (h\<lparr>search := q\<rparr>) w
           = captureReferralFromURL (h\<lparr>search := q'\<rparr>) w"
    by (intro capture_without_order_id) (simp_all add: URLSearchParams_get_def)
next
  assume "(map_of (search h) REFERRAL_PARAM = None \<or> map_of (search h) REFERRAL_PARAM = Some [])
      \<and> (map_of (search h) ORDER_ID_PARAM = None \<or> map_of (search h) ORDER_ID_PARAM = Some [])"
  then show "captureReferralFromURL h w = (Inr (), w)"
    by (auto simp: captureReferralFromURL_effect truthy_param)
next
  assume a: "localStorage w STORAGE_KEY = Some (Parsable (JObj r))
      \<and> map_of r ''code'' = Some (JStr A) \<and> A \<noteq> []
      \<and> map_of (search h) REFERRAL_PARAM = Some [] \<and> \<not> getItem_throws h"
  then have e: "existingData h w = Some (JObj r)"
    by (simp add: existingData_object)
  from a have p: "persisted_field w ''code'' = Some (JStr A)"
    by (simp add: persisted_field_record)
  from a e p show "persisted_field (snd (captureReferralFromURL h w)) ''code'' = Some (JStr A)"
    by (simp add: captureReferralFromURL_effect storeReferral_effect URLSearchParams_get_def
        js_or_def persisted_field_def)
next
  assume a: "localStorage w STORAGE_KEY = Some (Parsable (JObj r))
      \<and> map_of r ''orderId'' = Some (JStr B) \<and> B \<noteq> []
      \<and> map_of (search h) ORDER_ID_PARAM = Some [] \<and> \<not> getItem_throws h"
  then have e: "existingData h w = Some (JObj r)"
    by (simp add: existingData_object)
  from a have p: "persisted_field w ''orderId'' = Some (JStr B)"
    by (simp add: persisted_field_record)
  from a e p show "persisted_field (snd (captureReferralFromURL h w)) ''orderId'' = Some (JStr B)"
    by (simp add: captureReferralFromURL_effect storeReferral_effect URLSearchParams_get_def
        js_or_def persisted_field_def)
next
  assume a: "persisted_field w ''code'' = Some (JStr [])"
  have "opt_member (Some (stored_value h w)) ''code'' = None
        \<or> opt_member (Some (stored_value h w)) ''code'' = Some (JStr [])"
    using a
    by (auto simp: stored_value_def persisted_field_def split: option.splits content.splits)
  then show "getReferralCode h w = (Inr (Some JNull), w)"
    by (auto simp: getReferralCode_effect)
qed

theorem empty_parameter_is_absent_witness:
  "captureReferralFromURL (plain_host\<lparr>search := [(''ref'', ''''), (''order_id'', ''7'')]\<rparr>)
     (holding (Parsable (JObj
        [(''code'', JStr ''A''), (''orderId'', JStr ''B''),
         (''capturedAt'', JStr ''2023-12-31T00:00:00.000Z''), (''landingPage'', JStr ''/x'')])))
   = captureReferralFromURL (plain_host\<lparr>search := [(''order_id'', ''7'')]\<rparr>)
     (holding (Parsable (JObj
        [(''code'', JStr ''A''), (''orderId'', JStr ''B''),
         (''capturedAt'', JStr ''2023-12-31T00:00:00.000Z''), (''landingPage'', JStr ''/x'')])))
   \<and> captureReferralFromURL (plain_host\<lparr>search := [(''ref'', ''C''), (''order_id'', '''')]\<rparr>)
     (holding (Parsable (JObj
        [(''code'', JStr ''A''), (''orderId'', JStr ''B''),
         (''capturedAt'', JStr ''2023-12-31T00:00:00.000Z''), (''landingPage'', JStr ''/x'')])))
   = captureReferralFromURL (plain_host\<lparr>search := [(''ref'', ''C'')]\<rparr>)
     (holding (Parsable (JObj
        [(''code'', JStr ''A''), (''orderId'', JStr ''B''),
         (''capturedAt'', JStr ''2023-12-31T00:00:00.000Z''), (''landingPage'', JStr ''/x'')])))
   \<and> captureReferralFromURL (plain_host\<lparr>search := [(''ref'', ''''), (''order_id'', '''')]\<rparr>)
        fresh
     = (Inr (), fresh)
   \<and> persisted_field
       (snd (captureReferralFromURL
          (plain_host\<lparr>search := [(''ref'', ''''), (''order_id'', ''7'')]\<rparr>)
          (holding (Parsable (JObj
            [(''code'', JStr ''A''), (''orderId'', JStr ''B''),
             (''capturedAt'', JStr ''2023-12-31T00:00:00.000Z''),
             (''landingPage'', JStr ''/x'')])))))
       ''code''
     = Some (JStr ''A'')
   \<and> persisted_field
       (snd (captureReferralFromURL
          (plain_host\<lparr>search := [(''ref'', ''C''), (''order_id'', '''')]\<rparr>)
          (holding (Parsable (JObj
            [(''code'', JStr ''A''), (''orderId'', JStr ''B''),
             (''capturedAt'', JStr ''2023-12-31T00:00:00.000Z''),
             (''landingPage'', JStr ''/x'')])))))
       ''orderId''
     = Some (JStr ''B'')
   \<and> getReferralCode plain_host
       (holding (Parsable (JObj
          [(''code'', JStr ''''), (''orderId'', JStr ''B''),
           (''capturedAt'', JStr ''2023-12-31T00:00:00.000Z''), (''landingPage'', JStr ''/x'')])))
     = (Inr (Some JNull),
        holding (Parsable (JObj
          [(''code'', JStr ''''), (''orderId'', JStr ''B''),
           (''capturedAt'', JStr ''2023-12-31T00:00:00.000Z''), (''landingPage'', JStr ''/x'')])))"
proof -
  have a: "captureReferralFromURL
        (plain_host\<lparr>search := [(''ref'', ''''), (''order_id'', ''7'')]\<rparr>) (holding (Parsable (JObj
        [(''code'', JStr ''A''), (''orderId'', JStr ''B''),
         (''capturedAt'', JStr ''2023-12-31T00:00:00.000Z''), (''landingPage'', JStr ''/x'')])))
      = captureReferralFromURL (plain_host\<lparr>search := [(''order_id'', ''7'')]\<rparr>) (holding (Parsable (JObj
        [(''code'', JStr ''A''), (''orderId'', JStr ''B''),
         (''capturedAt'', JStr ''2023-12-31T00:00:00.000Z''), (''landingPage'', JStr ''/x'')])))"
    using empty_parameter_is_absent [where h = plain_host
      and q = "[(''ref'', ''''), (''order_id'', ''7'')]" and q' = "[(''order_id'', ''7'')]"
      and w = "holding (Parsable (JObj
        [(''code'', JStr ''A''), (''orderId'', JStr ''B''),
         (''capturedAt'', JStr ''2023-12-31T00:00:00.000Z''), (''landingPage'', JStr ''/x'')]))",
      THEN conjunct1]
    by (simp add: REFERRAL_PARAM_def ORDER_ID_PARAM_def)
  have b: "captureReferralFromURL
        (plain_host\<lparr>search := [(''ref'', ''C''), (''order_id'', '''')]\<rparr>) (holding (Parsable (JObj
        [(''code'', JStr ''A''), (''orderId'', JStr ''B''),
         (''capturedAt'', JStr ''2023-12-31T00:00:00.000Z''), (''landingPage'', JStr ''/x'')])))
      = captureReferralFromURL (plain_host\<lparr>search := [(''ref'', ''C'')]\<rparr>) (holding (Parsable (JObj
        [(''code'', JStr ''A''), (''orderId'', JStr ''B''),
         (''capturedAt'', JStr ''2023-12-31T00:00:00.000Z''), (''landingPage'', JStr ''/x'')])))"
    using empty_parameter_is_absent [where h = plain_host
      and q = "[(''ref'', ''C''), (''order_id'', '''')]" and q' = "[(''ref'', ''C'')]"
      and w = "holding (Parsable (JObj
        [(''code'', JStr ''A''), (''orderId'', JStr ''B''),
         (''capturedAt'', JStr ''2023-12-31T00:00:00.000Z''), (''landingPage'', JStr ''/x'')]))",
      THEN conjunct2, THEN conjunct1]
    by (simp add: REFERRAL_PARAM_def ORDER_ID_PARAM_def)
  have c: "captureReferralFromURL
        (plain_host\<lparr>search := [(''ref'', ''''), (''order_id'', '''')]\<rparr>) fresh
      = (Inr (), fresh)"
    using empty_parameter_is_absent [where w = fresh
      and h = "plain_host\<lparr>search := [(''ref'', ''''), (''order_id'', '''')]\<rparr>",
      THEN conjunct2, THEN conjunct2, THEN conjunct1]
    by (simp add: REFERRAL_PARAM_def ORDER_ID_PARAM_def)
  have d: "persisted_field
       (snd (captureReferralFromURL
          (plain_host\<lparr>search := [(''ref'', ''''), (''order_id'', ''7'')]\<rparr>) (holding (Parsable (JObj
        [(''code'', JStr ''A''), (''orderId'', JStr ''B''),
         (''capturedAt'', JStr ''2023-12-31T00:00:00.000Z''), (''landingPage'', JStr ''/x'')])))))
       ''code''
     = Some (JStr ''A'')"
    using empty_parameter_is_absent [where A = "''A''"
      and h = "plain_host\<lparr>search := [(''ref'', ''''), (''order_id'', ''7'')]\<rparr>"
      and r = "[(''code'', JStr ''A''), (''orderId'', JStr ''B''),
         (''capturedAt'', JStr ''2023-12-31T00:00:00.000Z''), (''landingPage'', JStr ''/x'')]"
      and w = "holding (Parsable (JObj
        [(''code'', JStr ''A''), (''orderId'', JStr ''B''),
         (''capturedAt'', JStr ''2023-12-31T00:00:00.000Z''), (''landingPage'', JStr ''/x'')]))",
      THEN conjunct2, THEN conjunct2, THEN conjunct2, THEN conjunct1]
    by (simp add: REFERRAL_PARAM_def ORDER_ID_PARAM_def plain_host_def holding_def)
  have e: "persisted_field
       (snd (captureReferralFromURL
          (plain_host\<lparr>search := [(''ref'', ''C''), (''order_id'', '''')]\<rparr>) (holding (Parsable (JObj
        [(''code'', JStr ''A''), (''orderId'', JStr ''B''),
         (''capturedAt'', JStr ''2023-12-31T00:00:00.000Z''), (''landingPage'', JStr ''/x'')])))))
       ''orderId''
     = Some (JStr ''B'')"
    using empty_parameter_is_absent [where B = "''B''"
      and h = "plain_host\<lparr>search := [(''ref'', ''C''), (''order_id'', '''')]\<rparr>"
      and r = "[(''code'', JStr ''A''), (''orderId'', JStr ''B''),
         (''capturedAt'', JStr ''2023-12-31T00:00:00.000Z''), (''landingPage'', JStr ''/x'')]"
      and w = "holding (Parsable (JObj
        [(''code'', JStr ''A''), (''orderId'', JStr ''B''),
         (''capturedAt'', JStr ''2023-12-31T00:00:00.000Z''), (''landingPage'', JStr ''/x'')]))",
      THEN conjunct2, THEN conjunct2, THEN conjunct2, THEN conjunct2, THEN conjunct1]
    by (simp add: REFERRAL_PARAM_def ORDER_ID_PARAM_def plain_host_def holding_def)
  have f: "getReferralCode plain_host (holding (Parsable (JObj
          [(''code'', JStr ''''), (''orderId'', JStr ''B''),
           (''capturedAt'', JStr ''2023-12-31T00:00:00.000Z''), (''landingPage'', JStr ''/x'')]))) = (Inr (Some JNull), holding (Parsable (JObj
          [(''code'', JStr ''''), (''orderId'', JStr ''B''),
           (''capturedAt'', JStr ''2023-12-31T00:00:00.000Z''), (''landingPage'', JStr ''/x'')])))"
    using empty_parameter_is_absent [where h = plain_host and w = "holding (Parsable (JObj
          [(''code'', JStr ''''), (''orderId'', JStr ''B''),
           (''capturedAt'', JStr ''2023-12-31T00:00:00.000Z''), (''landingPage'', JStr ''/x'')]))",
      THEN conjunct2, THEN conjunct2, THEN conjunct2, THEN conjunct2, THEN conjunct2]
    by (simp add: persisted_field_def holding_def)
  from a b c d e f show ?thesis
    by (intro conjI)
qed

section \<open>The record is never empty\<close>

lemma truthy_non_null: "truthy v \<Longrightarrow> non_null v"
  by (induction v rule: truthy.induct) simp_all

lemma or_null_truthy: "truthy a \<Longrightarrow> non_null (Some (or_null (js_or a b)))"
proof -
  assume t: "truthy a"
  then obtain x where a: "a = Some x" by (cases a) simp_all
  with t have "or_null (js_or a b) = x" by (simp add: js_or_def)
  with t a show ?thesis using truthy_non_null by simp
qed

lemma invariant_storage:
  "localStorage w' = localStorage w \<Longrightarrow> record_invariant w' = record_invariant w"
  by (simp add: record_invariant_def)

lemma store_invariant:
  assumes "truthy referral \<or> truthy orderId"
  shows "record_invariant (w\<lparr>localStorage := (localStorage w)(STORAGE_KEY \<mapsto>
          Parsable (JObj
            [(''code'', or_null (js_or referral c)),
             (''orderId'', or_null (js_or orderId d)),
             (''capturedAt'', JStr t),
             (''landingPage'', JStr p)]))\<rparr>)"
proof -
  from assms have "non_null (Some (or_null (js_or referral c)))
       \<or> non_null (Some (or_null (js_or orderId d)))"
    using or_null_truthy by blast
  then show ?thesis
    by (simp add: record_invariant_def)
qed

lemma capture_invariant:
  assumes "record_invariant w"
  shows "record_invariant (snd (captureReferralFromURL h w))"
proof (cases "truthy (URLSearchParams_get (search h) REFERRAL_PARAM)
         \<or> truthy (URLSearchParams_get (search h) ORDER_ID_PARAM)")
  case False
  with assms show ?thesis
    by (simp add: captureReferralFromURL_effect)
next
  case True
  note t = this
  show ?thesis
  proof (cases "setItem_throws h")
    case True
    with assms t show ?thesis
      by (simp add: captureReferralFromURL_effect storeReferral_effect)
  next
    case False
    from t have "snd (captureReferralFromURL h w) =
        snd (storeReferral h (URLSearchParams_get (search h) REFERRAL_PARAM)
                  (URLSearchParams_get (search h) ORDER_ID_PARAM) w)"
      by (simp only: captureReferralFromURL_effect snd_conv if_True)
    also from False have "\<dots> = w\<lparr>localStorage := (localStorage w)(STORAGE_KEY \<mapsto>
          Parsable (JObj
            [(''code'', or_null (js_or (URLSearchParams_get (search h) REFERRAL_PARAM)
                 (opt_member (existingData h w) ''code''))),
             (''orderId'', or_null (js_or (URLSearchParams_get (search h) ORDER_ID_PARAM)
                 (opt_member (existingData h w) ''orderId''))),
             (''capturedAt'', JStr (now h)),
             (''landingPage'', JStr (pathname h))]))\<rparr>"
      by (simp only: storeReferral_effect snd_conv if_False)
    finally show ?thesis
      using store_invariant [OF t] by simp
  qed
qed

lemma perform_invariant:
  assumes "record_invariant w"
  shows "record_invariant (perform op w)"
proof (cases op)
  case (Capture h)
  with assms show ?thesis by (simp add: capture_invariant)
next
  case (Reconcile h)
  have "localStorage (snd (syncReferralToCart h w)) = localStorage w"
    using keeps_syncReferralToCart [of h] by (simp add: keeps_storage_def)
  then have "record_invariant (snd (syncReferralToCart h w)) = record_invariant w"
    by (rule invariant_storage)
  with assms Reconcile show ?thesis by simp
next
  case (Clear h)
  with assms show ?thesis
    by (simp add: clearReferral_effect record_invariant_def)
next
  case (ReadRecord h)
  have "snd (getStoredReferral h w) = w"
    by (simp add: getStoredReferral_cases split: option.splits content.splits)
  with assms ReadRecord show ?thesis by simp
next
  case (CurrentCode h)
  with assms show ?thesis by (simp add: getReferralCode_effect)
qed

lemma run_invariant: "record_invariant w \<Longrightarrow> record_invariant (run ops w)"
proof (induction ops arbitrary: w)
  case Nil
  then show ?case by simp
next
  case (Cons op ops)
  from Cons.prems have "record_invariant (perform op w)"
    by (rule perform_invariant)
  then have "record_invariant (run ops (perform op w))"
    by (rule Cons.IH)
  then show ?case by simp
qed

text \<open>
  C2. \<open>record_invariant\<close> says that nothing is stored under the key, or a record is
  whose \<open>code\<close> or \<open>orderId\<close> is not \<^verbatim>\<open>null\<close>. It holds when nothing is stored, and every
  sequence of the five operations, under any behaviour of the host, keeps it. A capture
  with neither parameter in the query string changes nothing: it creates no record and
  overwrites none.
\<close>

theorem record_never_empty:
  "(localStorage w STORAGE_KEY = None \<longrightarrow> record_invariant (run ops w))
   \<and> (record_invariant w \<longrightarrow> record_invariant (run ops w))
   \<and> (map_of (search h) REFERRAL_PARAM = None \<and> map_of (search h) ORDER_ID_PARAM = None
      \<longrightarrow> captureReferralFromURL h w = (Inr (), w))"
proof (intro conjI impI)
  assume "localStorage w STORAGE_KEY = None"
  then have "record_invariant w"
    by (simp add: record_invariant_def)
  then show "record_invariant (run ops w)"
    by (rule run_invariant)
next
  assume "record_invariant w"
  then show "record_invariant (run ops w)"
    by (rule run_invariant)
next
  assume "map_of (search h) REFERRAL_PARAM = None \<and> map_of (search h) ORDER_ID_PARAM = None"
  then show "captureReferralFromURL h w = (Inr (), w)"
    by (simp add: captureReferralFromURL_effect truthy_param)
qed

theorem record_never_empty_witness:
  "record_invariant
     (run [Capture (plain_host\<lparr>search := [(''ref'', ''store1'')]\<rparr>),
           Reconcile plain_host,
           CurrentCode plain_host,
           Capture (plain_host\<lparr>search := [(''order_id'', ''7'')]\<rparr>),
           ReadRecord plain_host,
           Clear plain_host,
           Capture (plain_host\<lparr>search := [(''utm'', ''x'')]\<rparr>),
           Capture (plain_host\<lparr>search := [(''order_id'', ''8'')]\<rparr>)]
        fresh)
   \<and> captureReferralFromURL (plain_host\<lparr>search := [(''utm'', ''x'')]\<rparr>) fresh = (Inr (), fresh)"
  using record_never_empty [where w = fresh
      and h = "plain_host\<lparr>search := [(''utm'', ''x'')]\<rparr>"
      and ops = "[Capture (plain_host\<lparr>search := [(''ref'', ''store1'')]\<rparr>),
           Reconcile plain_host,
           CurrentCode plain_host,
           Capture (plain_host\<lparr>search := [(''order_id'', ''7'')]\<rparr>),
           ReadRecord plain_host,
           Clear plain_host,
           Capture (plain_host\<lparr>search := [(''utm'', ''x'')]\<rparr>),
           Capture (plain_host\<lparr>search := [(''order_id'', ''8'')]\<rparr>)]"]
  by (simp add: fresh_def REFERRAL_PARAM_def ORDER_ID_PARAM_def)

end
